theory Spec2Isabelle
  imports Main
begin

section \<open>Data model\<close>

text \<open>
  The tables of the booking backend, as the controllers read and write them.
  Money amounts (decimal columns) are exact integers; times are milliseconds.
  The \<open>cafe_wallets\<close> table is keyed by (user, warnet) and the \<open>pcs\<close> table by
  (warnet, pc number), the keys every query of the controllers uses; \<open>users\<close>,
  \<open>bookings\<close> and \<open>bowar_transactions\<close> are lists of rows in insertion order, the
  last two with a database-assigned id.
\<close>

datatype booking_status = StPending | StActive | StCancelled | StCompleted

datatype payment_status = PayPending | PayPaid | PayRejected

datatype tx_type = Topup | Payment | Refund

datatype tx_status = TxPending | TxCompleted | TxFailed

datatype pc_status = Available | Occupied | Maintenance

record user =
  u_id :: nat
  u_role :: string
  u_warnet_id :: "nat option"

record warnet =
  wn_name :: string
  regular_price_per_hour :: int
  member_price_per_hour :: int

record booking =
  b_id :: nat
  b_user_id :: nat
  b_warnet_id :: nat
  b_pc_number :: nat
  booking_date :: string
  booking_time :: string
  b_duration :: int
  b_status :: booking_status
  b_payment_status :: payment_status
  is_session_active :: bool
  price_per_hour :: int
  total_price :: int
  is_member_booking :: bool
  payment_proof_image :: "string option"
  payment_account_name :: "string option"
  payment_notes :: "string option"
  can_cancel_until :: nat
  b_approved_by :: "nat option"
  b_approved_at :: "nat option"

record cafe_wallet =
  balance :: int
  remaining_minutes :: int
  is_active :: bool
  last_updated :: "nat option"

record bowar_transaction =
  t_id :: nat
  t_user_id :: nat
  t_type :: tx_type
  t_amount :: int
  t_description :: string
  t_booking_id :: "nat option"
  t_warnet_id :: "nat option"
  t_status :: tx_status
  t_approved_by :: "nat option"
  t_approved_at :: "nat option"

record pc =
  pc_state :: pc_status
  current_booking_id :: "nat option"

record db =
  users :: "user list"
  warnets :: "nat \<rightharpoonup> warnet"
  bookings :: "booking list"
  wallets :: "nat \<times> nat \<rightharpoonup> cafe_wallet"
  transactions :: "bowar_transaction list"
  pcs :: "nat \<times> nat \<rightharpoonup> pc"

subsection \<open>Exceptions and responses\<close>

text \<open>
  Every awaited database or file call of a handler can throw. The environment is a
  function from the call site to the error thrown there, if any. A rollback is taken
  to succeed: the writes bound to a transaction that is not committed are undone. A
  write that is not bound to the transaction is committed when it returns and stays.
\<close>

record err =
  err_message :: string
  err_stack :: string

datatype call =
    WarnetFind | PcQuery | FileMove | TrxBegin | BookingInsert | WalletQuery
  | WalletSave | WalletCreate | TransactionSave | TransactionCreate | TransactionQuery
  | TransactionFind | BookingFind | BookingSave | PcUpsert | PcSave | TrxCommit
  | LoadUser | LoadWarnet | UserFind

type_synonym faults = "call \<Rightarrow> err option"

definition no_fault :: faults where
  "no_fault = (\<lambda>c. None)"

text \<open>
  A response is its HTTP status, its \<open>message\<close>, and the two fields through which a
  handler can expose the caught exception: \<open>error\<close> and \<open>details\<close>.
\<close>

record response =
  status :: nat
  message :: string
  error_field :: "string option"
  details :: "string option"

definition reply :: "nat \<Rightarrow> string \<Rightarrow> response" where
  "reply c m = \<lparr>status = c, message = m, error_field = None, details = None\<rparr>"

type_synonym outcome = "(err + response) \<times> db"

text \<open>
  An outcome is what the handler body returned or threw, with the database as committed
  at that moment. \<open>attempt fault c s k\<close> runs \<open>k\<close> unless the call \<open>c\<close> throws, in
  which case the committed database is \<open>s\<close>.
\<close>

definition attempt :: "faults \<Rightarrow> call \<Rightarrow> db \<Rightarrow> outcome \<Rightarrow> outcome" where
  "attempt fault c s k = (case fault c of Some e \<Rightarrow> (Inl e, s) | None \<Rightarrow> k)"

subsection \<open>Table access\<close>

definition find_user :: "user list \<Rightarrow> nat \<Rightarrow> user option" where
  "find_user us i = List.find (\<lambda>u. u_id u = i) us"

definition find_booking :: "booking list \<Rightarrow> nat \<Rightarrow> booking option" where
  "find_booking bs i = List.find (\<lambda>b. b_id b = i) bs"

definition save_booking :: "booking \<Rightarrow> booking list \<Rightarrow> booking list" where
  "save_booking b bs = map (\<lambda>x. if b_id x = b_id b then b else x) bs"

definition new_booking_id :: "booking list \<Rightarrow> nat" where
  "new_booking_id bs = Suc (fold max (map b_id bs) 0)"

definition find_transaction :: "bowar_transaction list \<Rightarrow> nat \<Rightarrow> bowar_transaction option" where
  "find_transaction ts i = List.find (\<lambda>t. t_id t = i) ts"

definition save_transaction :: "bowar_transaction \<Rightarrow> bowar_transaction list \<Rightarrow> bowar_transaction list" where
  "save_transaction t ts = map (\<lambda>x. if t_id x = t_id t then t else x) ts"

definition new_transaction_id :: "bowar_transaction list \<Rightarrow> nat" where
  "new_transaction_id ts = Suc (fold max (map t_id ts) 0)"

text \<open>\<open>Pc.updateOrCreate\<close> with the search key (warnet, pc number).\<close>

definition pc_updateOrCreate :: "nat \<Rightarrow> nat \<Rightarrow> nat \<Rightarrow> (nat \<times> nat \<rightharpoonup> pc) \<Rightarrow> (nat \<times> nat \<rightharpoonup> pc)" where
  "pc_updateOrCreate w n bid ps =
     ps((w, n) \<mapsto> \<lparr>pc_state = Occupied, current_booking_id = Some bid\<rparr>)"

text \<open>Decimal rendering of a number inside a template string.\<close>

fun string_of_nat :: "nat \<Rightarrow> string" where
  "string_of_nat n =
     (if n < 10 then [char_of (48 + n)]
      else string_of_nat (n div 10) @ [char_of (48 + n mod 10)])"

declare string_of_nat.simps [simp del]

section \<open>Booking creation: \<open>BookingController.create\<close>\<close>

record upload =
  clientName :: string
  hasErrors :: bool

text \<open>
  The request fields; a field that is absent is the falsy value of its type
  (\<open>0\<close>, the empty string), which is all the handler tests.
\<close>

record create_request =
  warnetId :: nat
  pcNumber :: nat
  bookingDate :: string
  bookingTime :: string
  duration :: int
  paymentMethod :: string
  paymentAccountName :: string
  paymentNotes :: string
  paymentProofImage :: "upload option"

definition isMemberBooking :: "user \<Rightarrow> create_request \<Rightarrow> bool" where
  "isMemberBooking usr req \<longleftrightarrow> u_role usr = ''member'' \<and> u_warnet_id usr = Some (warnetId req)"

definition pricePerHour :: "user \<Rightarrow> create_request \<Rightarrow> warnet \<Rightarrow> int" where
  "pricePerHour usr req w =
     (if isMemberBooking usr req then member_price_per_hour w else regular_price_per_hour w)"

definition totalPrice :: "user \<Rightarrow> create_request \<Rightarrow> warnet \<Rightarrow> int" where
  "totalPrice usr req w = pricePerHour usr req w * duration req"

definition initial_booking ::
  "user \<Rightarrow> create_request \<Rightarrow> warnet \<Rightarrow> string option \<Rightarrow> nat \<Rightarrow> nat \<Rightarrow> booking" where
  "initial_booking usr req w uploadedFilePath now i =
     \<lparr>b_id = i, b_user_id = u_id usr, b_warnet_id = warnetId req, b_pc_number = pcNumber req,
      booking_date = bookingDate req, booking_time = bookingTime req,
      b_duration = duration req, b_status = StPending, b_payment_status = PayPending,
      is_session_active = False, price_per_hour = pricePerHour usr req w,
      total_price = totalPrice usr req w, is_member_booking = isMemberBooking usr req,
      payment_proof_image =
        (if paymentMethod req = ''bank_transfer'' then uploadedFilePath else None),
      payment_account_name =
        (if paymentMethod req = ''bank_transfer'' then Some (paymentAccountName req) else None),
      payment_notes =
        (if paymentMethod req = ''bank_transfer'' \<and> paymentNotes req \<noteq> []
         then Some (paymentNotes req) else None),
      can_cancel_until = now + 120000,
      b_approved_by = None, b_approved_at = None\<rparr>"

definition payment_transaction ::
  "user \<Rightarrow> create_request \<Rightarrow> warnet \<Rightarrow> nat \<Rightarrow> nat \<Rightarrow> bowar_transaction" where
  "payment_transaction usr req w bid i =
     \<lparr>t_id = i, t_user_id = u_id usr, t_type = Payment, t_amount = - totalPrice usr req w,
      t_description =
        ''Payment for booking at '' @ wn_name w @ '' - PC #'' @ string_of_nat (pcNumber req),
      t_booking_id = Some bid, t_warnet_id = Some (warnetId req), t_status = TxCompleted,
      t_approved_by = None, t_approved_at = None\<rparr>"

definition insufficient_balance :: response where
  "insufficient_balance =
     reply 400 ''Saldo Warnet ini tidak cukup. Silakan top up khusus di warnet ini.''"

text \<open>
  The end of the transaction: the PC upsert when the booking is paid, the commit, and
  the reload of the booking for the response. \<open>s\<close> is the committed database, which
  a throw leaves behind, \<open>s1\<close> the database as the transaction sees it.
\<close>

definition create_finish :: "faults \<Rightarrow> booking \<Rightarrow> db \<Rightarrow> db \<Rightarrow> outcome" where
  "create_finish fault bk s s1 =
     (if b_payment_status bk = PayPaid then
        attempt fault PcUpsert s
          (let s2 = s1\<lparr>pcs := pc_updateOrCreate (b_warnet_id bk) (b_pc_number bk) (b_id bk) (pcs s1)\<rparr>
           in attempt fault TrxCommit s
                (attempt fault LoadWarnet s2
                   (Inr (reply 201 ''Booking created successfully''), s2)))
      else
        attempt fault TrxCommit s
          (attempt fault LoadWarnet s1
             (Inr (reply 201 ''Booking created successfully''), s1)))"

text \<open>
  The body of the inner \<open>try\<close>: everything between opening the transaction and the
  response. The booking, the payment record and the PC upsert are bound to the
  transaction (\<open>booking.useTransaction(trx)\<close>, \<open>transaction.useTransaction(trx)\<close>,
  \<open>{ client: trx }\<close>). The wallet row is only read through it
  (\<open>CafeWallet.query()...useTransaction(trx).first()\<close>) and then saved with a bare
  \<open>cafeWallet.save()\<close>, which is not bound to the transaction: the debit is committed
  at once, in \<open>c\<close>, and a later throw rolls back everything but the debit.
\<close>

definition create_trx ::
  "faults \<Rightarrow> user \<Rightarrow> create_request \<Rightarrow> warnet \<Rightarrow> string option \<Rightarrow> nat \<Rightarrow> db \<Rightarrow> outcome" where
  "create_trx fault usr req w uploadedFilePath now s =
     attempt fault BookingInsert s
       (let bk = initial_booking usr req w uploadedFilePath now (new_booking_id (bookings s));
            s1 = s\<lparr>bookings := bookings s @ [bk]\<rparr>
        in if paymentMethod req = ''dompet_bowar'' then
             attempt fault WalletQuery s
               (case wallets s1 (u_id usr, warnetId req) of
                  None \<Rightarrow> (Inr insufficient_balance, s)
                | Some cafeWallet \<Rightarrow>
                    if balance cafeWallet < totalPrice usr req w then (Inr insufficient_balance, s)
                    else
                      attempt fault WalletSave s
                        (let debited = cafeWallet\<lparr>balance := balance cafeWallet - totalPrice usr req w\<rparr>;
                             c = s\<lparr>wallets := (wallets s)((u_id usr, warnetId req) \<mapsto> debited)\<rparr>;
                             s2 = s1\<lparr>wallets := (wallets s1)((u_id usr, warnetId req) \<mapsto> debited)\<rparr>
                         in attempt fault TransactionSave c
                              (let s3 = s2\<lparr>transactions := transactions s2 @
                                     [payment_transaction usr req w (b_id bk)
                                        (new_transaction_id (transactions s2))]\<rparr>
                               in attempt fault BookingSave c
                                    (let bk' = bk\<lparr>b_payment_status := PayPaid, b_status := StActive\<rparr>;
                                         s4 = s3\<lparr>bookings := save_booking bk' (bookings s3)\<rparr>
                                     in create_finish fault bk' c s4))))
           else create_finish fault bk s s1)"

definition create_body :: "faults \<Rightarrow> user \<Rightarrow> create_request \<Rightarrow> nat \<Rightarrow> db \<Rightarrow> outcome" where
  "create_body fault usr req now s =
     (if warnetId req = 0 \<or> pcNumber req = 0 \<or> bookingDate req = [] \<or> bookingTime req = []
         \<or> duration req = 0 \<or> paymentMethod req = []
      then (Inr (reply 400 ''Missing required fields''), s)
      else if paymentMethod req = ''bank_transfer'' \<and> paymentAccountName req = []
      then (Inr (reply 400 ''Account name is required for bank transfer''), s)
      else if paymentMethod req = ''bank_transfer'' \<and> paymentProofImage req = None
      then (Inr (reply 400 ''Payment proof image is required for bank transfer''), s)
      else if isMemberBooking usr req \<and> duration req \<le> 1
      then (Inr (reply 400 ''Member booking must be more than 1 hour''), s)
      else
        attempt fault WarnetFind s
          (case warnets s (warnetId req) of
             None \<Rightarrow> (Inr (reply 404 ''Warnet not found''), s)
           | Some w \<Rightarrow>
               attempt fault PcQuery s
                 (if (case pcs s (warnetId req, pcNumber req) of
                        None \<Rightarrow> False | Some p \<Rightarrow> pc_state p = Maintenance)
                  then (Inr (reply 400 ''PC is under maintenance''), s)
                  else
                    (case (if paymentMethod req = ''bank_transfer'' then paymentProofImage req else None) of
                       None \<Rightarrow>
                         attempt fault TrxBegin s (create_trx fault usr req w None now s)
                     | Some file \<Rightarrow>
                         attempt fault FileMove s
                           (if hasErrors file then (Inr (reply 400 ''File upload failed''), s)
                            else
                              attempt fault TrxBegin s
                                (create_trx fault usr req w
                                   (Some (''/uploads/payment-proofs/'' @ string_of_nat now @ ''_'' @ clientName file))
                                   now s))))))"

text \<open>The outer \<open>catch\<close> maps any exception to a 500 that carries the exception's message.\<close>

definition create :: "faults \<Rightarrow> user \<Rightarrow> create_request \<Rightarrow> nat \<Rightarrow> db \<Rightarrow> response \<times> db" where
  "create fault usr req now s =
     (case create_body fault usr req now s of
        (Inl e, s') \<Rightarrow>
          (\<lparr>status = 500, message = ''Failed to create booking'',
            error_field = Some (err_message e), details = None\<rparr>, s')
      | (Inr r, s') \<Rightarrow> (r, s'))"

section \<open>Booking cancellation: \<open>BookingController.cancel\<close>\<close>

text \<open>
  Modelled from the spec: \<open>Booking.canCancel\<close>, a method of the booking model, which is
  not among the sources. The spec accepts a cancellation while \<open>now \<le> can_cancel_until\<close>.
\<close>

definition canCancel :: "booking \<Rightarrow> nat \<Rightarrow> bool" where
  "canCancel bk now \<longleftrightarrow> now \<le> can_cancel_until bk"

text \<open>A step inside a transaction either throws or yields the next database.\<close>

definition try_call :: "faults \<Rightarrow> call \<Rightarrow> err + db \<Rightarrow> err + db" where
  "try_call fault c k = (case fault c of Some e \<Rightarrow> Inl e | None \<Rightarrow> k)"

text \<open>
  The same for a block in which a write can be committed on its own: the result is the
  throw or the database as the transaction sees it, with the committed database.
\<close>

definition try_step :: "faults \<Rightarrow> call \<Rightarrow> db \<Rightarrow> (err + db) \<times> db \<Rightarrow> (err + db) \<times> db" where
  "try_step fault c s k = (case fault c of Some e \<Rightarrow> (Inl e, s) | None \<Rightarrow> k)"

definition empty_wallet :: "nat option \<Rightarrow> cafe_wallet" where
  "empty_wallet t = \<lparr>balance = 0, remaining_minutes = 0, is_active = False, last_updated = t\<rparr>"

definition refund_transaction :: "user \<Rightarrow> booking \<Rightarrow> nat \<Rightarrow> bowar_transaction" where
  "refund_transaction usr bk i =
     \<lparr>t_id = i, t_user_id = u_id usr, t_type = Refund, t_amount = total_price bk,
      t_description =
        ''Refund for cancelled booking (Warnet ID: '' @ string_of_nat (b_warnet_id bk)
          @ '') - PC #'' @ string_of_nat (b_pc_number bk),
      t_booking_id = Some (b_id bk), t_warnet_id = Some (b_warnet_id bk),
      t_status = TxCompleted, t_approved_by = None, t_approved_at = None\<rparr>"

text \<open>
  The refund block. The payment transaction is looked up outside the transaction
  client, so in the committed database \<open>s\<close>; the wallet inside it, in \<open>s1\<close>. A wallet
  row that exists is read through the transaction and saved with a bare
  \<open>cafeWallet.save()\<close>, not bound to it: the credit is committed at once. A wallet
  that is missing is built and bound to the transaction
  (\<open>cafeWallet.useTransaction(trx)\<close>), like the refund record.
\<close>

definition cancel_refund :: "faults \<Rightarrow> user \<Rightarrow> booking \<Rightarrow> db \<Rightarrow> db \<Rightarrow> (err + db) \<times> db" where
  "cancel_refund fault usr bk s s1 =
     (if b_payment_status bk = PayPaid then
        try_step fault TransactionQuery s
          (case List.find (\<lambda>t. t_booking_id t = Some (b_id bk) \<and> t_type t = Payment)
                  (transactions s) of
             None \<Rightarrow> (Inr s1, s)
           | Some paymentTransaction \<Rightarrow>
               try_step fault WalletQuery s
                 (case wallets s1 (u_id usr, b_warnet_id bk) of
                    None \<Rightarrow>
                      try_step fault WalletSave s
                        (let s2 = s1\<lparr>wallets := (wallets s1)((u_id usr, b_warnet_id bk) \<mapsto>
                                      (empty_wallet None)\<lparr>balance :=
                                         balance (empty_wallet None) + total_price bk\<rparr>)\<rparr>
                         in try_step fault TransactionSave s
                              (Inr (s2\<lparr>transactions := transactions s2 @
                                      [refund_transaction usr bk
                                         (new_transaction_id (transactions s2))]\<rparr>), s))
                  | Some cafeWallet \<Rightarrow>
                      try_step fault WalletSave s
                        (let credited = cafeWallet\<lparr>balance := balance cafeWallet + total_price bk\<rparr>;
                             c = s\<lparr>wallets := (wallets s)((u_id usr, b_warnet_id bk) \<mapsto> credited)\<rparr>;
                             s2 = s1\<lparr>wallets := (wallets s1)((u_id usr, b_warnet_id bk) \<mapsto> credited)\<rparr>
                         in try_step fault TransactionSave c
                              (Inr (s2\<lparr>transactions := transactions s2 @
                                      [refund_transaction usr bk
                                         (new_transaction_id (transactions s2))]\<rparr>), c))))
      else (Inr s1, s))"

text \<open>
  The PC is released only if its record still points at this booking; the record is
  looked up outside the transaction, in the committed database \<open>c\<close>.
\<close>

definition cancel_release_pc :: "faults \<Rightarrow> booking \<Rightarrow> db \<Rightarrow> db \<Rightarrow> err + db" where
  "cancel_release_pc fault bk c s2 =
     try_call fault PcQuery
       (case pcs c (b_warnet_id bk, b_pc_number bk) of
          None \<Rightarrow> Inr s2
        | Some p \<Rightarrow>
            if current_booking_id p = Some (b_id bk) then
              try_call fault PcSave
                (Inr (s2\<lparr>pcs := (pcs s2)((b_warnet_id bk, b_pc_number bk) \<mapsto>
                         p\<lparr>pc_state := Available, current_booking_id := None\<rparr>)\<rparr>))
            else Inr s2)"

definition cancel_body :: "faults \<Rightarrow> user \<Rightarrow> nat \<Rightarrow> nat \<Rightarrow> db \<Rightarrow> outcome" where
  "cancel_body fault usr bookingId now s =
     attempt fault BookingFind s
       (case find_booking (bookings s) bookingId of
          None \<Rightarrow> (Inr (reply 404 ''Booking not found''), s)
        | Some bk \<Rightarrow>
            if b_user_id bk \<noteq> u_id usr
            then (Inr (reply 403 ''You are not authorized to cancel this booking''), s)
            else if b_status bk = StCancelled
            then (Inr (reply 400 ''Booking is already cancelled''), s)
            else if b_status bk = StCompleted
            then (Inr (reply 400 ''Cannot cancel a completed booking''), s)
            else if \<not> canCancel bk now
            then (Inr (reply 400 ''Cancel window has expired''), s)
            else
              attempt fault TrxBegin s
                (attempt fault BookingSave s
                   (let bk' = bk\<lparr>b_status := StCancelled\<rparr>;
                        s1 = s\<lparr>bookings := save_booking bk' (bookings s)\<rparr>
                    in case cancel_refund fault usr bk' s s1 of
                         (Inl e, c) \<Rightarrow> (Inl e, c)
                       | (Inr s2, c) \<Rightarrow>
                           (case cancel_release_pc fault bk' c s2 of
                              Inl e \<Rightarrow> (Inl e, c)
                            | Inr s3 \<Rightarrow>
                                attempt fault TrxCommit c
                                  (Inr (reply 200 ''Booking cancelled successfully''), s3)))))"

text \<open>The outer \<open>catch\<close> of \<open>cancel\<close> puts the message and the stack of the exception in the body.\<close>

definition cancel :: "faults \<Rightarrow> user \<Rightarrow> nat \<Rightarrow> nat \<Rightarrow> db \<Rightarrow> response \<times> db" where
  "cancel fault usr bookingId now s =
     (case cancel_body fault usr bookingId now s of
        (Inl e, s') \<Rightarrow>
          (\<lparr>status = 500, message = ''Failed to cancel booking'',
            error_field = Some (err_message e), details = Some (err_stack e)\<rparr>, s')
      | (Inr r, s') \<Rightarrow> (r, s'))"

section \<open>Operator approval and rejection of bookings: \<open>OperatorBookingsController\<close>\<close>

definition operator_approve_body :: "faults \<Rightarrow> user \<Rightarrow> nat \<Rightarrow> nat \<Rightarrow> db \<Rightarrow> outcome" where
  "operator_approve_body fault operator bookingId now s =
     (if u_role operator \<noteq> ''operator''
      then (Inr (reply 403 ''Only operators can access this endpoint''), s)
      else
        attempt fault BookingFind s
          (case find_booking (bookings s) bookingId of
             None \<Rightarrow> (Inr (reply 404 ''Booking not found''), s)
           | Some bk \<Rightarrow>
               if Some (b_warnet_id bk) \<noteq> u_warnet_id operator
               then (Inr (reply 403 ''You can only approve bookings for your warnet''), s)
               else if b_payment_status bk = PayPaid
               then (Inr (reply 400 ''Booking payment already approved''), s)
               else if b_status bk = StCancelled
               then (Inr (reply 400 ''Cannot approve cancelled booking''), s)
               else
                 attempt fault TrxBegin s
                   (attempt fault BookingSave s
                      (let bk' = bk\<lparr>b_payment_status := PayPaid, b_status := StActive,
                                     b_approved_by := Some (u_id operator),
                                     b_approved_at := Some now\<rparr>;
                           s1 = s\<lparr>bookings := save_booking bk' (bookings s)\<rparr>
                       in attempt fault PcUpsert s
                            (let s2 = s1\<lparr>pcs := pc_updateOrCreate (b_warnet_id bk')
                                           (b_pc_number bk') (b_id bk') (pcs s1)\<rparr>
                             in attempt fault TrxCommit s
                                  (attempt fault LoadUser s2
                                     (attempt fault LoadWarnet s2
                                        (Inr (reply 200 ''Booking payment approved successfully''),
                                         s2))))))))"

definition operator_approve :: "faults \<Rightarrow> user \<Rightarrow> nat \<Rightarrow> nat \<Rightarrow> db \<Rightarrow> response \<times> db" where
  "operator_approve fault operator bookingId now s =
     (case operator_approve_body fault operator bookingId now s of
        (Inl e, s') \<Rightarrow>
          (\<lparr>status = 500, message = ''Failed to approve booking'',
            error_field = Some (err_message e), details = None\<rparr>, s')
      | (Inr r, s') \<Rightarrow> (r, s'))"

text \<open>Rejection saves the booking directly, without a transaction.\<close>

definition operator_reject_body :: "faults \<Rightarrow> user \<Rightarrow> nat \<Rightarrow> db \<Rightarrow> outcome" where
  "operator_reject_body fault operator bookingId s =
     (if u_role operator \<noteq> ''operator''
      then (Inr (reply 403 ''Only operators can access this endpoint''), s)
      else
        attempt fault BookingFind s
          (case find_booking (bookings s) bookingId of
             None \<Rightarrow> (Inr (reply 404 ''Booking not found''), s)
           | Some bk \<Rightarrow>
               if Some (b_warnet_id bk) \<noteq> u_warnet_id operator
               then (Inr (reply 403 ''You can only reject bookings for your warnet''), s)
               else if b_payment_status bk = PayPaid
               then (Inr (reply 400 ''Cannot reject already approved booking''), s)
               else if b_status bk = StCancelled
               then (Inr (reply 400 ''Booking already cancelled''), s)
               else
                 attempt fault BookingSave s
                   (let bk' = bk\<lparr>b_payment_status := PayRejected, b_status := StCancelled\<rparr>;
                        s1 = s\<lparr>bookings := save_booking bk' (bookings s)\<rparr>
                    in attempt fault LoadUser s1
                         (attempt fault LoadWarnet s1
                            (Inr (reply 200 ''Booking payment rejected''), s1)))))"

definition operator_reject :: "faults \<Rightarrow> user \<Rightarrow> nat \<Rightarrow> db \<Rightarrow> response \<times> db" where
  "operator_reject fault operator bookingId s =
     (case operator_reject_body fault operator bookingId s of
        (Inl e, s') \<Rightarrow>
          (\<lparr>status = 500, message = ''Failed to reject booking'',
            error_field = Some (err_message e), details = None\<rparr>, s')
      | (Inr r, s') \<Rightarrow> (r, s'))"

section \<open>Wallet transactions: \<open>BowarTransactionController\<close>\<close>

text \<open>
  This controller opens no database transaction: each \<open>save\<close> and \<open>create\<close> is
  committed when it returns, so the database at a later throw holds the earlier writes.
\<close>

subsection \<open>\<open>approve\<close>\<close>

text \<open>
  The wallet table has no row for a null warnet; the handler reaches that point only
  when the operator and the transaction both have none, and the wallet insert with a
  null \<open>warnet_id\<close> is then refused by the database.
\<close>

definition null_warnet_error :: err where
  "null_warnet_error = \<lparr>err_message = ''null value in column warnet_id'', err_stack = []\<rparr>"

definition approve_credit ::
  "faults \<Rightarrow> user \<Rightarrow> bowar_transaction \<Rightarrow> cafe_wallet \<Rightarrow> nat \<times> nat \<Rightarrow> nat \<Rightarrow> db \<Rightarrow> outcome" where
  "approve_credit fault usr tx cafeWallet key now s1 =
     attempt fault WalletSave s1
       (let s2 = s1\<lparr>wallets := (wallets s1)(key \<mapsto>
                     cafeWallet\<lparr>balance := balance cafeWallet + t_amount tx\<rparr>)\<rparr>
        in attempt fault TransactionSave s2
             (let tx' = tx\<lparr>t_status := TxCompleted, t_approved_by := Some (u_id usr),
                            t_approved_at := Some now\<rparr>
              in (Inr (reply 200 ''Top up berhasil disetujui''),
                  s2\<lparr>transactions := save_transaction tx' (transactions s2)\<rparr>)))"

definition approve_body :: "faults \<Rightarrow> user \<Rightarrow> nat \<Rightarrow> nat \<Rightarrow> db \<Rightarrow> outcome" where
  "approve_body fault usr txId now s =
     (if u_role usr \<noteq> ''operator''
      then (Inr (reply 403 ''Hanya operator yang dapat menyetujui top up''), s)
      else
        attempt fault TransactionFind s
          (case find_transaction (transactions s) txId of
             None \<Rightarrow> (Inr (reply 404 ''Transaksi tidak ditemukan''), s)
           | Some tx \<Rightarrow>
               if u_warnet_id usr \<noteq> t_warnet_id tx
               then (Inr (reply 403
                       ''Anda tidak memiliki akses untuk menyetujui transaksi warnet ini''), s)
               else if t_status tx \<noteq> TxPending
               then (Inr (reply 400 ''Transaksi ini sudah diproses''), s)
               else if t_type tx \<noteq> Topup
               then (Inr (reply 400 ''Hanya transaksi topup yang dapat disetujui''), s)
               else
                 attempt fault UserFind s
                   (case find_user (users s) (t_user_id tx) of
                      None \<Rightarrow> (Inr (reply 404 ''User pemilik transaksi tidak ditemukan''), s)
                    | Some transactionOwner \<Rightarrow>
                        attempt fault WalletQuery s
                          (case t_warnet_id tx of
                             None \<Rightarrow> (Inl null_warnet_error, s)
                           | Some wid \<Rightarrow>
                               (case wallets s (u_id transactionOwner, wid) of
                                  Some cafeWallet \<Rightarrow>
                                    approve_credit fault usr tx cafeWallet
                                      (u_id transactionOwner, wid) now s
                                | None \<Rightarrow>
                                    attempt fault WalletCreate s
                                      (approve_credit fault usr tx (empty_wallet (Some now))
                                         (u_id transactionOwner, wid) now
                                         (s\<lparr>wallets := (wallets s)((u_id transactionOwner, wid) \<mapsto>
                                               empty_wallet (Some now))\<rparr>)))))))"

definition approve :: "faults \<Rightarrow> user \<Rightarrow> nat \<Rightarrow> nat \<Rightarrow> db \<Rightarrow> response \<times> db" where
  "approve fault usr txId now s =
     (case approve_body fault usr txId now s of
        (Inl e, s') \<Rightarrow> (reply 500 ''Terjadi kesalahan saat menyetujui top up'', s')
      | (Inr r, s') \<Rightarrow> (r, s'))"

subsection \<open>\<open>payment\<close>\<close>

record payment_request =
  p_bookingId :: nat
  p_amount :: int
  p_description :: string

definition payment_body :: "faults \<Rightarrow> user \<Rightarrow> payment_request \<Rightarrow> db \<Rightarrow> outcome" where
  "payment_body fault usr req s =
     (if p_bookingId req = 0 \<or> p_amount req = 0
      then (Inr (reply 400 ''bookingId dan amount wajib diisi''), s)
      else
        attempt fault BookingFind s
          (case find_booking (bookings s) (p_bookingId req) of
             None \<Rightarrow> (Inr (reply 404 ''Booking tidak ditemukan''), s)
           | Some bk \<Rightarrow>
               if b_user_id bk \<noteq> u_id usr
               then (Inr (reply 403 ''Anda tidak memiliki akses ke booking ini''), s)
               else
                 attempt fault WalletQuery s
                   (case wallets s (u_id usr, b_warnet_id bk) of
                      None \<Rightarrow> (Inr insufficient_balance, s)
                    | Some cafeWallet \<Rightarrow>
                        if balance cafeWallet < p_amount req then (Inr insufficient_balance, s)
                        else
                          attempt fault WalletSave s
                            (let s1 = s\<lparr>wallets := (wallets s)((u_id usr, b_warnet_id bk) \<mapsto>
                                          cafeWallet\<lparr>balance := balance cafeWallet - p_amount req\<rparr>)\<rparr>
                             in attempt fault TransactionCreate s1
                                  (Inr (reply 201 ''Pembayaran berhasil''),
                                   s1\<lparr>transactions := transactions s1 @
                                     [\<lparr>t_id = new_transaction_id (transactions s1),
                                       t_user_id = u_id usr, t_type = Payment,
                                       t_amount = - p_amount req,
                                       t_description =
                                         (if p_description req \<noteq> [] then p_description req
                                          else ''Pembayaran booking #'' @ string_of_nat (p_bookingId req)),
                                       t_booking_id = Some (p_bookingId req),
                                       t_warnet_id = Some (b_warnet_id bk),
                                       t_status = TxCompleted,
                                       t_approved_by = None, t_approved_at = None\<rparr>]\<rparr>)))))"

definition payment :: "faults \<Rightarrow> user \<Rightarrow> payment_request \<Rightarrow> db \<Rightarrow> response \<times> db" where
  "payment fault usr req s =
     (case payment_body fault usr req s of
        (Inl e, s') \<Rightarrow> (reply 500 ''Terjadi kesalahan saat memproses pembayaran'', s')
      | (Inr r, s') \<Rightarrow> (r, s'))"

subsection \<open>\<open>refund\<close>\<close>

record refund_request =
  r_bookingId :: nat
  r_amount :: int
  r_description :: string

definition refund_record :: "user \<Rightarrow> refund_request \<Rightarrow> booking option \<Rightarrow> nat \<Rightarrow> bowar_transaction" where
  "refund_record usr req booking i =
     \<lparr>t_id = i, t_user_id = u_id usr, t_type = Refund, t_amount = r_amount req,
      t_description =
        (if r_description req \<noteq> [] then r_description req
         else ''Refund untuk booking #'' @
              (if r_bookingId req = 0 then ''N/A'' else string_of_nat (r_bookingId req))),
      t_booking_id = (if r_bookingId req = 0 then None else Some (r_bookingId req)),
      t_warnet_id =
        (case booking of
           None \<Rightarrow> None
         | Some bk \<Rightarrow> if b_warnet_id bk = 0 then None else Some (b_warnet_id bk)),
      t_status = TxCompleted, t_approved_by = None, t_approved_at = None\<rparr>"

definition refund_log :: "faults \<Rightarrow> user \<Rightarrow> refund_request \<Rightarrow> booking option \<Rightarrow> db \<Rightarrow> outcome" where
  "refund_log fault usr req booking s2 =
     attempt fault TransactionCreate s2
       (Inr (reply 201 ''Refund berhasil diproses''),
        s2\<lparr>transactions := transactions s2 @
              [refund_record usr req booking (new_transaction_id (transactions s2))]\<rparr>)"

definition refund_credit ::
  "faults \<Rightarrow> user \<Rightarrow> refund_request \<Rightarrow> booking option \<Rightarrow> cafe_wallet \<Rightarrow> nat \<Rightarrow> db \<Rightarrow> outcome" where
  "refund_credit fault usr req booking cafeWallet wid s1 =
     attempt fault WalletSave s1
       (refund_log fault usr req booking
          (s1\<lparr>wallets := (wallets s1)((u_id usr, wid) \<mapsto>
                 cafeWallet\<lparr>balance := balance cafeWallet + r_amount req\<rparr>)\<rparr>))"

definition refund_wallet ::
  "faults \<Rightarrow> user \<Rightarrow> refund_request \<Rightarrow> booking option \<Rightarrow> nat \<Rightarrow> db \<Rightarrow> outcome" where
  "refund_wallet fault usr req booking now s =
     (let wid = (case booking of None \<Rightarrow> 0 | Some bk \<Rightarrow> b_warnet_id bk)
      in attempt fault WalletQuery s
           (case wallets s (u_id usr, wid) of
              Some cafeWallet \<Rightarrow> refund_credit fault usr req booking cafeWallet wid s
            | None \<Rightarrow>
                (case booking of
                   None \<Rightarrow> refund_log fault usr req booking s
                 | Some bk \<Rightarrow>
                     attempt fault WalletCreate s
                       (refund_credit fault usr req booking (empty_wallet (Some now))
                          (b_warnet_id bk)
                          (s\<lparr>wallets := (wallets s)((u_id usr, b_warnet_id bk) \<mapsto>
                                empty_wallet (Some now))\<rparr>)))))"

definition refund_body :: "faults \<Rightarrow> user \<Rightarrow> refund_request \<Rightarrow> nat \<Rightarrow> db \<Rightarrow> outcome" where
  "refund_body fault usr req now s =
     (if r_amount req \<le> 0
      then (Inr (reply 400 ''Jumlah refund harus lebih dari 0''), s)
      else if r_bookingId req \<noteq> 0
      then attempt fault BookingFind s
             (refund_wallet fault usr req (find_booking (bookings s) (r_bookingId req)) now s)
      else refund_wallet fault usr req None now s)"

definition refund :: "faults \<Rightarrow> user \<Rightarrow> refund_request \<Rightarrow> nat \<Rightarrow> db \<Rightarrow> response \<times> db" where
  "refund fault usr req now s =
     (case refund_body fault usr req now s of
        (Inl e, s') \<Rightarrow> (reply 500 ''Terjadi kesalahan saat memproses refund'', s')
      | (Inr r, s') \<Rightarrow> (r, s'))"

section \<open>Notions used by the properties\<close>

text \<open>The balance a user holds at a warnet; no wallet row counts as nothing held.\<close>

definition balance_of :: "db \<Rightarrow> nat \<Rightarrow> nat \<Rightarrow> int" where
  "balance_of s uid wid = (case wallets s (uid, wid) of None \<Rightarrow> 0 | Some cw \<Rightarrow> balance cw)"

text \<open>The wallet check of \<open>create\<close>: no wallet row, or less than the total price.\<close>

definition insufficient :: "user \<Rightarrow> create_request \<Rightarrow> warnet \<Rightarrow> db \<Rightarrow> bool" where
  "insufficient usr req w s \<longleftrightarrow>
     (case wallets s (u_id usr, warnetId req) of
        None \<Rightarrow> True | Some cw \<Rightarrow> balance cw < totalPrice usr req w)"


text \<open>The booking a wallet payment leaves behind: paid and active.\<close>

definition paid_booking :: "user \<Rightarrow> create_request \<Rightarrow> warnet \<Rightarrow> nat \<Rightarrow> db \<Rightarrow> booking" where
  "paid_booking usr req w now s =
     (initial_booking usr req w None now (new_booking_id (bookings s)))
       \<lparr>b_payment_status := PayPaid, b_status := StActive\<rparr>"

text \<open>
  The four effects of a wallet payment, together: the debit, the completed payment
  record, the paid and active booking, and the PC occupied by it.
\<close>

definition paid_effects :: "user \<Rightarrow> create_request \<Rightarrow> warnet \<Rightarrow> nat \<Rightarrow> db \<Rightarrow> db \<Rightarrow> bool" where
  "paid_effects usr req w now s s' \<longleftrightarrow>
     (case wallets s (u_id usr, warnetId req) of
        None \<Rightarrow> False
      | Some cw \<Rightarrow>
          totalPrice usr req w \<le> balance cw \<and>
          wallets s' = (wallets s)((u_id usr, warnetId req) \<mapsto>
                          cw\<lparr>balance := balance cw - totalPrice usr req w\<rparr>)) \<and>
     transactions s' = transactions s @
        [payment_transaction usr req w (new_booking_id (bookings s))
           (new_transaction_id (transactions s))] \<and>
     bookings s' = bookings s @ [paid_booking usr req w now s] \<and>
     pcs s' = (pcs s)((warnetId req, pcNumber req) \<mapsto>
                 \<lparr>pc_state = Occupied, current_booking_id = Some (new_booking_id (bookings s))\<rparr>) \<and>
     users s' = users s \<and> warnets s' = warnets s"

text \<open>
  The scenario of the spec: a regular user with 25000 at warnet 1, whose hourly rate is
  10000, books PC 3 for two hours from the wallet.
\<close>

definition demo_user :: user where
  "demo_user = \<lparr>u_id = 1, u_role = ''user'', u_warnet_id = None\<rparr>"

definition demo_warnet :: warnet where
  "demo_warnet = \<lparr>wn_name = ''Bowar'', regular_price_per_hour = 10000, member_price_per_hour = 8000\<rparr>"

definition demo_request :: create_request where
  "demo_request =
     \<lparr>warnetId = 1, pcNumber = 3, bookingDate = ''2026-01-20'', bookingTime = ''10:00'',
      duration = 2, paymentMethod = ''dompet_bowar'', paymentAccountName = [],
      paymentNotes = [], paymentProofImage = None\<rparr>"

definition demo_db :: db where
  "demo_db =
     \<lparr>users = [demo_user], warnets = [1 \<mapsto> demo_warnet], bookings = [],
      wallets = [(1, 1) \<mapsto> \<lparr>balance = 25000, remaining_minutes = 0, is_active = False,
                              last_updated = None\<rparr>],
      transactions = [], pcs = Map.empty\<rparr>"

text \<open>
  A bank-transfer booking of the same user waiting for the operator, an operator of
  warnet 1 and one of warnet 2, and a pending top-up of 50000 at warnet 1.
\<close>

definition demo_booking :: booking where
  "demo_booking =
     \<lparr>b_id = 1, b_user_id = 1, b_warnet_id = 1, b_pc_number = 3,
      booking_date = ''2026-01-20'', booking_time = ''10:00'', b_duration = 2,
      b_status = StPending, b_payment_status = PayPending, is_session_active = False,
      price_per_hour = 10000, total_price = 20000, is_member_booking = False,
      payment_proof_image = Some ''/uploads/payment-proofs/1000_proof.png'',
      payment_account_name = Some ''Budi'', payment_notes = None,
      can_cancel_until = 121000, b_approved_by = None, b_approved_at = None\<rparr>"

definition demo_booked_db :: db where
  "demo_booked_db = demo_db\<lparr>bookings := [demo_booking]\<rparr>"

definition demo_operator :: user where
  "demo_operator = \<lparr>u_id = 2, u_role = ''operator'', u_warnet_id = Some 1\<rparr>"

definition foreign_operator :: user where
  "foreign_operator = \<lparr>u_id = 3, u_role = ''operator'', u_warnet_id = Some 2\<rparr>"

definition demo_topup :: bowar_transaction where
  "demo_topup =
     \<lparr>t_id = 1, t_user_id = 1, t_type = Topup, t_amount = 50000,
      t_description = ''Top Up DompetBowar'', t_booking_id = None, t_warnet_id = Some 1,
      t_status = TxPending, t_approved_by = None, t_approved_at = None\<rparr>"

definition demo_topup_db :: db where
  "demo_topup_db = demo_db\<lparr>transactions := [demo_topup]\<rparr>"

text \<open>An environment in which exactly one call site throws.\<close>

definition demo_error :: err where
  "demo_error =
     \<lparr>err_message = ''Connection terminated unexpectedly'',
      err_stack = ''Error: Connection terminated unexpectedly at Connection.parseE (/app/node_modules/pg/lib/connection.js:539:11)''\<rparr>"

definition failing :: "call \<Rightarrow> faults" where
  "failing c = (\<lambda>x. if x = c then Some demo_error else None)"

subsection \<open>The life cycle of a booking\<close>

text \<open>One request to one of the four handlers that write bookings.\<close>

inductive step :: "db \<Rightarrow> db \<Rightarrow> bool" where
  step_create: "step s (snd (create fault usr req now s))"
| step_cancel: "step s (snd (cancel fault usr bookingId now s))"
| step_approve: "step s (snd (operator_approve fault operator bookingId now s))"
| step_reject: "step s (snd (operator_reject fault operator bookingId s))"

text \<open>
  The combinations of status and payment status that the four handlers produce; a
  completed booking is a paid one whose session has ended.
\<close>

definition booking_consistent :: "booking \<Rightarrow> bool" where
  "booking_consistent b \<longleftrightarrow>
     (b_status b = StPending \<and> b_payment_status b = PayPending) \<or>
     (b_status b = StActive \<and> b_payment_status b = PayPaid) \<or>
     (b_status b = StCompleted \<and> b_payment_status b = PayPaid) \<or>
     b_status b = StCancelled"

definition payment_move :: "payment_status \<Rightarrow> payment_status \<Rightarrow> bool" where
  "payment_move p p' \<longleftrightarrow> p' = p \<or> (p = PayPending \<and> (p' = PayPaid \<or> p' = PayRejected))"

definition status_move :: "booking_status \<Rightarrow> booking_status \<Rightarrow> bool" where
  "status_move t t' \<longleftrightarrow>
     t' = t \<or> (t = StPending \<and> t' = StActive) \<or>
     (t \<noteq> StCancelled \<and> t \<noteq> StCompleted \<and> t' = StCancelled)"

text \<open>
  What one request may do to the bookings table: nothing, append a consistent booking
  under a fresh id, or save an existing booking along an allowed move.
\<close>

definition booking_written :: "booking list \<Rightarrow> booking list \<Rightarrow> bool" where
  "booking_written bs bs' \<longleftrightarrow>
     bs' = bs \<or>
     (\<exists>b. bs' = bs @ [b] \<and> b_id b = new_booking_id bs \<and> booking_consistent b) \<or>
     (\<exists>j bk bk'. find_booking bs j = Some bk \<and> b_id bk' = j \<and> booking_consistent bk' \<and>
        payment_move (b_payment_status bk) (b_payment_status bk') \<and>
        status_move (b_status bk) (b_status bk') \<and> bs' = save_booking bk' bs)"


section \<open>Lemmas on the tables\<close>

lemma fold_max_ge: "a \<le> fold max xs (a::nat)"
proof (induction xs arbitrary: a)
  case Nil show ?case by simp
next
  case (Cons x xs)
  have "a \<le> max x a" by simp
  also have "\<dots> \<le> fold max xs (max x a)" by (rule Cons.IH)
  finally show ?case by simp
qed

lemma fold_max_mem: "x \<in> set xs \<Longrightarrow> x \<le> fold max xs (a::nat)"
proof (induction xs arbitrary: a)
  case Nil then show ?case by simp
next
  case (Cons y ys)
  show ?case
  proof (cases "x = y")
    case True
    have "x \<le> max y a" using True by simp
    also have "\<dots> \<le> fold max ys (max y a)" by (rule fold_max_ge)
    finally show ?thesis by simp
  next
    case False
    with Cons.prems have "x \<in> set ys" by simp
    then show ?thesis using Cons.IH by simp
  qed
qed

lemma new_booking_id_fresh: "b \<in> set bs \<Longrightarrow> b_id b < new_booking_id bs"
  unfolding new_booking_id_def using fold_max_mem [of "b_id b" "map b_id bs" 0] by auto

lemma save_booking_fresh:
  assumes "\<forall>b\<in>set bs. b_id b \<noteq> b_id bk"
  shows "save_booking bk bs = bs"
  unfolding save_booking_def using assms by (induction bs) auto

lemma save_booking_appended:
  assumes "b_id bk' = new_booking_id bs" "b_id bk = new_booking_id bs"
  shows "save_booking bk' (bs @ [bk]) = bs @ [bk']"
proof -
  have "\<forall>b\<in>set bs. b_id b \<noteq> b_id bk'" using new_booking_id_fresh assms(1) by fastforce
  then have "save_booking bk' bs = bs" by (rule save_booking_fresh)
  then show ?thesis using assms unfolding save_booking_def by simp
qed

lemma create_trx_wallet_insufficient:
  assumes "paymentMethod req = ''dompet_bowar''" "insufficient usr req w s"
  shows "create_trx no_fault usr req w None now s = (Inr insufficient_balance, s)"
  using assms
  by (auto simp: create_trx_def attempt_def no_fault_def Let_def insufficient_def
      split: option.splits)

lemma create_trx_wallet_paid:
  assumes "paymentMethod req = ''dompet_bowar''" "\<not> insufficient usr req w s"
  shows "fst (create_trx no_fault usr req w None now s) = Inr (reply 201 ''Booking created successfully'')
       \<and> paid_effects usr req w now s (snd (create_trx no_fault usr req w None now s))"
  using assms
  by (auto simp: create_trx_def create_finish_def attempt_def no_fault_def Let_def insufficient_def
       paid_effects_def paid_booking_def initial_booking_def save_booking_appended pc_updateOrCreate_def
      split: option.splits)

section \<open>Wallet-funded booking creation\<close>

text \<open>
  Claim C1 asks that a wallet-funded creation either fails with nothing changed or has
  all four effects together: the debit, the completed payment record, the paid and
  active booking and the occupied PC. The handler opens a transaction for this, but
  saves the wallet row outside it. When the save of the payment record throws after
  the wallet was saved, the answer is 500 and the rollback removes the booking, while
  the wallet of 25000 stays debited to 5000 with no booking, no payment record and no
  PC record; the same holds when the commit throws.
\<close>

theorem wallet_debit_survives_rollback:
  "status (fst (create (failing TransactionSave) demo_user demo_request 1000 demo_db)) = 500
   \<and> balance_of demo_db 1 1 = 25000
   \<and> totalPrice demo_user demo_request demo_warnet = 20000
   \<and> balance_of (snd (create (failing TransactionSave) demo_user demo_request 1000 demo_db)) 1 1
       = 5000
   \<and> bookings (snd (create (failing TransactionSave) demo_user demo_request 1000 demo_db)) = []
   \<and> transactions (snd (create (failing TransactionSave) demo_user demo_request 1000 demo_db))
       = []
   \<and> pcs (snd (create (failing TransactionSave) demo_user demo_request 1000 demo_db)) (1, 3)
       = None
   \<and> status (fst (create (failing TrxCommit) demo_user demo_request 1000 demo_db)) = 500
   \<and> balance_of (snd (create (failing TrxCommit) demo_user demo_request 1000 demo_db)) 1 1 = 5000
   \<and> bookings (snd (create (failing TrxCommit) demo_user demo_request 1000 demo_db)) = []"
  by (simp add: create_def create_body_def create_trx_def create_finish_def attempt_def
      failing_def balance_of_def Let_def totalPrice_def pricePerHour_def isMemberBooking_def
      demo_db_def demo_user_def demo_request_def demo_warnet_def)

section \<open>Cancelling a wallet-paid booking\<close>

lemma find_app:
  "List.find P (xs @ ys) = (case List.find P xs of None \<Rightarrow> List.find P ys | Some x \<Rightarrow> Some x)"
  by (induction xs) simp_all

lemma find_booking_appended:
  assumes "b_id bk = new_booking_id bs"
  shows "find_booking (bs @ [bk]) (new_booking_id bs) = Some bk"
proof -
  have "\<forall>b\<in>set bs. b_id b \<noteq> new_booking_id bs" using new_booking_id_fresh by fastforce
  then have "List.find (\<lambda>b. b_id b = new_booking_id bs) bs = None"
    by (simp add: find_None_iff)
  then show ?thesis using assms by (simp add: find_booking_def find_app)
qed

lemma find_append_last: "P x \<Longrightarrow> \<exists>y. List.find P (xs @ [x]) = Some y"
  by (cases "List.find P xs") (simp_all add: find_app)

lemma create_wallet_created:
  assumes "paymentMethod req = ''dompet_bowar''" "warnets s (warnetId req) = Some w"
    and "status (fst (create no_fault usr req now s)) = 201"
  shows "paid_effects usr req w now s (snd (create no_fault usr req now s))"
proof -
  have body: "create_body no_fault usr req now s = create_trx no_fault usr req w None now s"
    using assms
    by (auto simp: create_def create_body_def attempt_def no_fault_def reply_def
        split: option.splits if_splits)
  have "\<not> insufficient usr req w s"
    using assms(3) create_trx_wallet_insufficient [OF assms(1), of usr w s now]
    by (auto simp: create_def body insufficient_balance_def reply_def)
  then show ?thesis
    using create_trx_wallet_paid [OF assms(1), of usr w s now]
    by (cases "create_trx no_fault usr req w None now s") (auto simp: create_def body)
qed

lemma cancel_paid_booking:
  assumes eff: "paid_effects usr req w now s s1"
    and fin: "status (fst (cancel no_fault usr (new_booking_id (bookings s)) now' s1)) = 200"
  shows "wallets (snd (cancel no_fault usr (new_booking_id (bookings s)) now' s1)) = wallets s
       \<and> transactions (snd (cancel no_fault usr (new_booking_id (bookings s)) now' s1)) =
           transactions s1 @
             [refund_transaction usr ((paid_booking usr req w now s)\<lparr>b_status := StCancelled\<rparr>)
                (new_transaction_id (transactions s1))]"
proof -
  let ?pb = "paid_booking usr req w now s"
  let ?i = "new_booking_id (bookings s)"
  from eff obtain cw where cw: "wallets s (u_id usr, warnetId req) = Some cw"
    and w1: "wallets s1 = (wallets s)((u_id usr, warnetId req) \<mapsto>
               cw\<lparr>balance := balance cw - totalPrice usr req w\<rparr>)"
    by (auto simp: paid_effects_def split: option.splits)
  from eff have t1: "transactions s1 = transactions s @
        [payment_transaction usr req w ?i (new_transaction_id (transactions s))]"
    and b1: "bookings s1 = bookings s @ [?pb]"
    by (simp_all add: paid_effects_def)
  have idpb: "b_id ?pb = ?i" by (simp add: paid_booking_def initial_booking_def)
  have fb: "find_booking (bookings s1) ?i = Some ?pb"
    unfolding b1 using idpb by (rule find_booking_appended)
  have pbf: "b_user_id ?pb = u_id usr" "b_status ?pb = StActive" "b_payment_status ?pb = PayPaid"
    "b_warnet_id ?pb = warnetId req" "total_price ?pb = totalPrice usr req w"
    by (simp_all add: paid_booking_def initial_booking_def)
  obtain pt where pt: "List.find (\<lambda>t. t_booking_id t = Some ?i \<and> t_type t = Payment)
      (transactions s1) = Some pt"
    unfolding t1
    using find_append_last [of "\<lambda>t. t_booking_id t = Some ?i \<and> t_type t = Payment"
        "payment_transaction usr req w ?i (new_transaction_id (transactions s))" "transactions s"]
    by (auto simp: payment_transaction_def)
  have can: "canCancel ?pb now'"
    using fin by (auto simp: cancel_def cancel_body_def attempt_def no_fault_def fb pbf reply_def
        split: if_splits)
  have restore: "(wallets s1)((u_id usr, warnetId req) \<mapsto>
      (cw\<lparr>balance := balance cw - totalPrice usr req w\<rparr>)
        \<lparr>balance := balance (cw\<lparr>balance := balance cw - totalPrice usr req w\<rparr>)
            + totalPrice usr req w\<rparr>) = wallets s"
    unfolding w1 using cw by (auto simp: fun_eq_iff)
  show ?thesis
    using can pt restore
    by (simp add: cancel_def cancel_body_def cancel_refund_def cancel_release_pc_def attempt_def
        try_call_def try_step_def no_fault_def fb pbf idpb w1 Let_def split: option.splits)
qed

lemma cancel_paid_booking_in_window:
  assumes eff: "paid_effects usr req w now s s1" and win: "now' \<le> now + 120000"
  shows "status (fst (cancel no_fault usr (new_booking_id (bookings s)) now' s1)) = 200"
proof -
  let ?pb = "paid_booking usr req w now s"
  let ?i = "new_booking_id (bookings s)"
  from eff have b1: "bookings s1 = bookings s @ [?pb]"
    by (simp add: paid_effects_def)
  have idpb: "b_id ?pb = ?i" by (simp add: paid_booking_def initial_booking_def)
  have fb: "find_booking (bookings s1) ?i = Some ?pb"
    unfolding b1 using idpb by (rule find_booking_appended)
  have pbf: "b_user_id ?pb = u_id usr" "b_status ?pb = StActive" "b_payment_status ?pb = PayPaid"
    "can_cancel_until ?pb = now + 120000"
    by (simp_all add: paid_booking_def initial_booking_def)
  show ?thesis
    using win
    by (simp add: cancel_def cancel_body_def cancel_refund_def cancel_release_pc_def attempt_def
        try_call_def try_step_def no_fault_def fb pbf canCancel_def reply_def Let_def split: option.splits)
qed

text \<open>
  Claim C2 asks that a wallet-paid booking, once cancelled with success by its owner,
  leaves the wallet as it was before the creation. A cancellation in which no call
  throws does so. But the credit is saved outside the transaction: when the save of the
  refund record throws, the answer is 500 and the rollback keeps the booking active,
  while the wallet is already back at 25000. The owner's next cancellation succeeds and
  credits the total price once more, so that the cancelled booking ends with 45000 in a
  wallet that held 25000 before the creation.
\<close>

theorem failed_cancel_refunds_twice:
  "balance_of demo_db 1 1 = 25000
   \<and> status (fst (create no_fault demo_user demo_request 1000 demo_db)) = 201
   \<and> balance_of (snd (create no_fault demo_user demo_request 1000 demo_db)) 1 1 = 5000
   \<and> status (fst (cancel (failing TransactionSave) demo_user 1 2000
         (snd (create no_fault demo_user demo_request 1000 demo_db)))) = 500
   \<and> balance_of (snd (cancel (failing TransactionSave) demo_user 1 2000
         (snd (create no_fault demo_user demo_request 1000 demo_db)))) 1 1 = 25000
   \<and> map b_status (bookings (snd (cancel (failing TransactionSave) demo_user 1 2000
         (snd (create no_fault demo_user demo_request 1000 demo_db))))) = [StActive]
   \<and> map t_type (transactions (snd (cancel (failing TransactionSave) demo_user 1 2000
         (snd (create no_fault demo_user demo_request 1000 demo_db))))) = [Payment]
   \<and> status (fst (cancel no_fault demo_user 1 3000
         (snd (cancel (failing TransactionSave) demo_user 1 2000
            (snd (create no_fault demo_user demo_request 1000 demo_db)))))) = 200
   \<and> map b_status (bookings (snd (cancel no_fault demo_user 1 3000
         (snd (cancel (failing TransactionSave) demo_user 1 2000
            (snd (create no_fault demo_user demo_request 1000 demo_db))))))) = [StCancelled]
   \<and> balance_of (snd (cancel no_fault demo_user 1 3000
         (snd (cancel (failing TransactionSave) demo_user 1 2000
            (snd (create no_fault demo_user demo_request 1000 demo_db)))))) 1 1 = 45000"
  by (simp add: create_def create_body_def create_trx_def create_finish_def
      cancel_def cancel_body_def cancel_refund_def cancel_release_pc_def canCancel_def
      attempt_def try_call_def try_step_def failing_def no_fault_def balance_of_def reply_def
      Let_def totalPrice_def pricePerHour_def isMemberBooking_def initial_booking_def
      payment_transaction_def refund_transaction_def new_booking_id_def new_transaction_id_def
      save_booking_def find_booking_def pc_updateOrCreate_def
      demo_db_def demo_user_def demo_request_def demo_warnet_def)

section \<open>Who may cancel, and when\<close>

lemma find_booking_id: "find_booking bs i = Some b \<Longrightarrow> b_id b = i \<and> b \<in> set bs"
  unfolding find_booking_def by (induction bs) (auto split: if_splits)

lemma find_booking_saved:
  "find_booking bs i = Some b \<Longrightarrow> b_id b' = i \<Longrightarrow> find_booking (save_booking b' bs) i = Some b'"
  unfolding find_booking_def save_booking_def by (induction bs) (auto split: if_splits)

lemma find_booking_save_other:
  "b_id b' \<noteq> i \<Longrightarrow> find_booking (save_booking b' bs) i = find_booking bs i"
  unfolding find_booking_def save_booking_def by (induction bs) auto

lemma cancel_refund_bookings:
  "cancel_refund fault usr bk s s1 = (Inr s2, c) \<Longrightarrow> bookings s2 = bookings s1"
  by (auto simp: cancel_refund_def try_step_def Let_def split: if_splits option.splits)

lemma cancel_refund_committed:
  "cancel_refund fault usr bk s s1 = (r, c) \<Longrightarrow> bookings c = bookings s"
  by (auto simp: cancel_refund_def try_step_def Let_def split: if_splits option.splits)

lemma cancel_release_pc_bookings:
  "cancel_release_pc fault bk s s2 = Inr s3 \<Longrightarrow> bookings s3 = bookings s2"
  by (auto simp: cancel_release_pc_def try_call_def split: if_splits option.splits)

lemma cancel_refund_no_fault: "\<exists>s2 c. cancel_refund no_fault usr bk s s1 = (Inr s2, c)"
  by (simp add: cancel_refund_def try_step_def no_fault_def Let_def split: option.splits)

lemma cancel_release_pc_no_fault: "\<exists>s3. cancel_release_pc no_fault bk s s2 = Inr s3"
  by (simp add: cancel_release_pc_def try_call_def no_fault_def split: option.splits)

lemma cancel_refused:
  assumes "find_booking (bookings s) bid = Some bk"
    and "b_user_id bk \<noteq> u_id usr \<or> b_status bk = StCancelled \<or> b_status bk = StCompleted
         \<or> \<not> now \<le> can_cancel_until bk"
  shows "snd (cancel fault usr bid now s) = s"
    and "status (fst (cancel fault usr bid now s)) \<noteq> 200"
  using assms
  by (auto simp: cancel_def cancel_body_def attempt_def canCancel_def reply_def
      split: option.splits)

lemma cancel_accepted:
  assumes fb: "find_booking (bookings s) bid = Some bk"
    and own: "b_user_id bk = u_id usr"
    and st: "b_status bk \<noteq> StCancelled" "b_status bk \<noteq> StCompleted"
    and win: "now \<le> can_cancel_until bk"
  shows "status (fst (cancel no_fault usr bid now s)) = 200"
    and "find_booking (bookings (snd (cancel no_fault usr bid now s))) bid
          = Some (bk\<lparr>b_status := StCancelled\<rparr>)"
proof -
  let ?bk = "bk\<lparr>b_status := StCancelled\<rparr>"
  let ?s1 = "s\<lparr>bookings := save_booking ?bk (bookings s)\<rparr>"
  obtain s2 c where s2: "cancel_refund no_fault usr ?bk s ?s1 = (Inr s2, c)"
    using cancel_refund_no_fault by blast
  obtain s3 where s3: "cancel_release_pc no_fault ?bk c s2 = Inr s3"
    using cancel_release_pc_no_fault by blast
  have body: "cancel_body no_fault usr bid now s =
      (Inr (reply 200 ''Booking cancelled successfully''), s3)"
    using fb own st win s2 s3
    by (simp add: cancel_body_def attempt_def no_fault_def canCancel_def Let_def)
  show "status (fst (cancel no_fault usr bid now s)) = 200"
    by (simp add: cancel_def body reply_def)
  have "bookings s3 = save_booking ?bk (bookings s)"
    using cancel_refund_bookings [OF s2] cancel_release_pc_bookings [OF s3] by simp
  moreover have "b_id ?bk = bid" using find_booking_id [OF fb] by simp
  ultimately show "find_booking (bookings (snd (cancel no_fault usr bid now s))) bid = Some ?bk"
    using find_booking_saved [OF fb] by (simp add: cancel_def body)
qed

text \<open>
  Claim C4. For a cancellation request on an existing booking: made by the owner, it is
  accepted (answer 200, the booking becomes cancelled) if and only if the current time is
  not past \<open>can_cancel_until\<close> and the status is neither cancelled nor completed, and a
  refused request changes nothing; made by any other user, it is answered 403 and
  changes nothing.
\<close>

theorem cancel_accepted_iff:
  assumes "find_booking (bookings s) bid = Some bk"
  shows "(b_user_id bk = u_id usr \<longrightarrow>
            ((status (fst (cancel no_fault usr bid now s)) = 200) =
               (now \<le> can_cancel_until bk \<and> b_status bk \<noteq> StCancelled \<and> b_status bk \<noteq> StCompleted))
          \<and> (status (fst (cancel no_fault usr bid now s)) = 200 \<longrightarrow>
                find_booking (bookings (snd (cancel no_fault usr bid now s))) bid
                  = Some (bk\<lparr>b_status := StCancelled\<rparr>))
          \<and> (status (fst (cancel no_fault usr bid now s)) \<noteq> 200 \<longrightarrow>
                snd (cancel no_fault usr bid now s) = s))
       \<and> (b_user_id bk \<noteq> u_id usr \<longrightarrow>
            status (fst (cancel no_fault usr bid now s)) = 403 \<and>
            snd (cancel fault usr bid now s) = s)"
proof (intro conjI impI)
  assume own: "b_user_id bk = u_id usr"
  show "(status (fst (cancel no_fault usr bid now s)) = 200) =
        (now \<le> can_cancel_until bk \<and> b_status bk \<noteq> StCancelled \<and> b_status bk \<noteq> StCompleted)"
    using cancel_accepted(1) [OF assms own] cancel_refused(2) [OF assms, of usr now no_fault]
    by blast
  assume ok: "status (fst (cancel no_fault usr bid now s)) = 200"
  then have "now \<le> can_cancel_until bk \<and> b_status bk \<noteq> StCancelled \<and> b_status bk \<noteq> StCompleted"
    using cancel_refused(2) [OF assms, of usr now no_fault] by blast
  then show "find_booking (bookings (snd (cancel no_fault usr bid now s))) bid
                  = Some (bk\<lparr>b_status := StCancelled\<rparr>)"
    using cancel_accepted(2) [OF assms own] by blast
next
  assume own: "b_user_id bk = u_id usr"
    and no: "status (fst (cancel no_fault usr bid now s)) \<noteq> 200"
  then have "b_status bk = StCancelled \<or> b_status bk = StCompleted \<or> \<not> now \<le> can_cancel_until bk"
    using cancel_accepted(1) [OF assms own] by blast
  then show "snd (cancel no_fault usr bid now s) = s"
    using cancel_refused(1) [OF assms] by blast
next
  assume other: "b_user_id bk \<noteq> u_id usr"
  show "status (fst (cancel no_fault usr bid now s)) = 403"
    using assms other
    by (simp add: cancel_def cancel_body_def attempt_def no_fault_def reply_def)
  show "snd (cancel fault usr bid now s) = s"
    using cancel_refused(1) [OF assms] other by blast
qed

theorem cancel_accepted_iff_witness:
  "find_booking (bookings demo_booked_db) 1 = Some demo_booking \<and>
   b_user_id demo_booking = u_id demo_user \<and>
   b_user_id demo_booking \<noteq> u_id demo_operator \<and>
   status (fst (cancel no_fault demo_user 1 5000 demo_booked_db)) = 200 \<and>
   status (fst (cancel no_fault demo_user 1 121001 demo_booked_db)) \<noteq> 200 \<and>
   snd (cancel no_fault demo_user 1 121001 demo_booked_db) = demo_booked_db \<and>
   status (fst (cancel no_fault demo_operator 1 5000 demo_booked_db)) = 403 \<and>
   snd (cancel no_fault demo_operator 1 5000 demo_booked_db) = demo_booked_db"
proof -
  have a: "find_booking (bookings demo_booked_db) 1 = Some demo_booking"
    by (simp add: demo_booked_db_def demo_booking_def find_booking_def)
  have b: "b_user_id demo_booking = u_id demo_user" "b_user_id demo_booking \<noteq> u_id demo_operator"
    "b_status demo_booking = StPending" "can_cancel_until demo_booking = 121000"
    by (simp_all add: demo_booking_def demo_user_def demo_operator_def)
  show ?thesis
    using a b cancel_accepted_iff [OF a, of demo_user 5000 no_fault]
      cancel_accepted_iff [OF a, of demo_user 121001 no_fault]
      cancel_accepted_iff [OF a, of demo_operator 5000 no_fault]
    by simp
qed

section \<open>Operator approval across warnets\<close>

text \<open>
  Claim C7. An operator's request to approve a booking whose warnet differs from the
  operator's warnet is answered 403, and the database (booking, PC record, wallets and
  transaction log) is left exactly as it was, whichever call throws.
\<close>

theorem operator_approve_foreign_warnet:
  assumes "find_booking (bookings s) bid = Some bk"
    and "Some (b_warnet_id bk) \<noteq> u_warnet_id operator"
  shows "status (fst (operator_approve no_fault operator bid now s)) = 403
       \<and> snd (operator_approve fault operator bid now s) = s"
  using assms
  by (auto simp: operator_approve_def operator_approve_body_def attempt_def no_fault_def reply_def
      split: option.splits)

theorem operator_approve_foreign_warnet_witness:
  "find_booking (bookings demo_booked_db) 1 = Some demo_booking \<and>
   Some (b_warnet_id demo_booking) \<noteq> u_warnet_id foreign_operator \<and>
   status (fst (operator_approve no_fault foreign_operator 1 5000 demo_booked_db)) = 403 \<and>
   snd (operator_approve no_fault foreign_operator 1 5000 demo_booked_db) = demo_booked_db"
proof -
  have a: "find_booking (bookings demo_booked_db) 1 = Some demo_booking"
    by (simp add: demo_booked_db_def demo_booking_def find_booking_def)
  have b: "Some (b_warnet_id demo_booking) \<noteq> u_warnet_id foreign_operator"
    by (simp add: demo_booking_def foreign_operator_def)
  show ?thesis
    using a b operator_approve_foreign_warnet [OF a b, of 5000 no_fault] by simp
qed

section \<open>Approval of top-ups\<close>

lemma find_user_id: "find_user us i = Some u \<Longrightarrow> u_id u = i"
  unfolding find_user_def by (induction us) (auto split: if_splits)

lemma find_transaction_id: "find_transaction ts i = Some t \<Longrightarrow> t_id t = i \<and> t \<in> set ts"
  unfolding find_transaction_def by (induction ts) (auto split: if_splits)

lemma find_transaction_saved:
  "find_transaction ts i = Some t \<Longrightarrow> t_id t' = i \<Longrightarrow>
   find_transaction (save_transaction t' ts) i = Some t'"
  unfolding find_transaction_def save_transaction_def by (induction ts) (auto split: if_splits)

lemma approve_unauthorised:
  assumes "find_transaction (transactions s) txId = Some tx"
    and "\<not> (u_role usr = ''operator'' \<and> u_warnet_id usr = t_warnet_id tx \<and>
            t_status tx = TxPending \<and> t_type tx = Topup)"
  shows "snd (approve fault usr txId now s) = s"
  using assms
  by (auto simp: approve_def approve_body_def attempt_def split: option.splits)

lemma approve_processed:
  assumes "find_transaction (transactions s) txId = Some tx"
    and "u_role usr = ''operator''" "u_warnet_id usr = t_warnet_id tx" "t_status tx \<noteq> TxPending"
  shows "approve no_fault usr txId now s = (reply 400 ''Transaksi ini sudah diproses'', s)"
  using assms
  by (simp add: approve_def approve_body_def attempt_def no_fault_def)

lemma approve_granted:
  assumes ft: "find_transaction (transactions s) txId = Some tx"
    and op: "u_role usr = ''operator''" "u_warnet_id usr = Some wid" "t_warnet_id tx = Some wid"
    and pend: "t_status tx = TxPending" "t_type tx = Topup"
    and owner: "find_user (users s) (t_user_id tx) = Some transactionOwner"
  shows "status (fst (approve no_fault usr txId now s)) = 200"
    and "balance_of (snd (approve no_fault usr txId now s)) (t_user_id tx) wid
           = balance_of s (t_user_id tx) wid + t_amount tx"
    and "transactions (snd (approve no_fault usr txId now s)) =
           save_transaction (tx\<lparr>t_status := TxCompleted, t_approved_by := Some (u_id usr),
                                  t_approved_at := Some now\<rparr>) (transactions s)"
  using assms find_user_id [OF owner]
  by (auto simp: approve_def approve_body_def approve_credit_def attempt_def no_fault_def
      balance_of_def empty_wallet_def reply_def Let_def split: option.splits)

text \<open>
  Claim C3 asks that the amount of a pending top-up reach the wallet exactly once, a
  later approve being answered 400 without effect. An approve in which no call throws
  does so. But the wallet is saved before the record, with no transaction around the
  two: when the save of the record throws, the answer is 500, the wallet of 25000 holds
  75000 and the record is still pending; the next approve of the same record is
  answered 200 and credits the amount again, to 125000. This is the defect of claim C6.
\<close>

theorem topup_credited_twice:
  "t_status demo_topup = TxPending \<and> t_type demo_topup = Topup \<and> t_amount demo_topup = 50000
   \<and> balance_of demo_topup_db 1 1 = 25000
   \<and> status (fst (approve (failing TransactionSave) demo_operator 1 5000 demo_topup_db)) = 500
   \<and> balance_of (snd (approve (failing TransactionSave) demo_operator 1 5000 demo_topup_db)) 1 1
       = 75000
   \<and> map t_status
         (transactions (snd (approve (failing TransactionSave) demo_operator 1 5000 demo_topup_db)))
       = [TxPending]
   \<and> status (fst (approve no_fault demo_operator 1 6000
         (snd (approve (failing TransactionSave) demo_operator 1 5000 demo_topup_db)))) = 200
   \<and> balance_of (snd (approve no_fault demo_operator 1 6000
         (snd (approve (failing TransactionSave) demo_operator 1 5000 demo_topup_db)))) 1 1
       = 125000
   \<and> map t_status (transactions (snd (approve no_fault demo_operator 1 6000
         (snd (approve (failing TransactionSave) demo_operator 1 5000 demo_topup_db)))))
       = [TxCompleted]"
  by (simp add: approve_def approve_body_def approve_credit_def
      attempt_def failing_def no_fault_def balance_of_def reply_def Let_def
      demo_topup_db_def demo_db_def demo_topup_def demo_user_def demo_operator_def
      find_transaction_def find_user_def save_transaction_def)

section \<open>The refund endpoint\<close>

text \<open>
  Claim C9. For any authenticated user and any amount above zero, a refund request that
  references an existing booking adds the amount to the caller's own wallet at the
  booking's warnet, creating the wallet when it is missing, and appends a completed
  refund record; nothing is asked of the booking: not that the caller owns it, nor that
  it was paid or cancelled, nor that the amount matches a payment.
\<close>

theorem refund_credits_caller_unchecked:
  assumes "0 < r_amount req" and "r_bookingId req \<noteq> 0"
    and "find_booking (bookings s) (r_bookingId req) = Some bk"
  shows "status (fst (refund no_fault usr req now s)) = 201
       \<and> wallets (snd (refund no_fault usr req now s)) (u_id usr, b_warnet_id bk) \<noteq> None
       \<and> balance_of (snd (refund no_fault usr req now s)) (u_id usr) (b_warnet_id bk)
           = balance_of s (u_id usr) (b_warnet_id bk) + r_amount req
       \<and> transactions (snd (refund no_fault usr req now s)) = transactions s @
           [refund_record usr req (Some bk) (new_transaction_id (transactions s))]
       \<and> t_type (refund_record usr req (Some bk) (new_transaction_id (transactions s))) = Refund
       \<and> t_status (refund_record usr req (Some bk) (new_transaction_id (transactions s)))
           = TxCompleted
       \<and> t_amount (refund_record usr req (Some bk) (new_transaction_id (transactions s)))
           = r_amount req
       \<and> bookings (snd (refund no_fault usr req now s)) = bookings s"
  using assms
  by (auto simp: refund_def refund_body_def refund_wallet_def refund_credit_def refund_log_def
      refund_record_def attempt_def no_fault_def balance_of_def empty_wallet_def reply_def Let_def
      split: option.splits)

theorem refund_credits_caller_unchecked_witness:
  "(0::int) < r_amount \<lparr>r_bookingId = 1, r_amount = 999999, r_description = []\<rparr> \<and>
   r_bookingId \<lparr>r_bookingId = 1, r_amount = 999999, r_description = []\<rparr> \<noteq> 0 \<and>
   find_booking (bookings demo_booked_db) 1 = Some demo_booking \<and>
   b_user_id demo_booking \<noteq> u_id foreign_operator \<and>
   b_payment_status demo_booking = PayPending \<and> b_status demo_booking = StPending \<and>
   wallets demo_booked_db (u_id foreign_operator, b_warnet_id demo_booking) = None \<and>
   status (fst (refund no_fault foreign_operator
      \<lparr>r_bookingId = 1, r_amount = 999999, r_description = []\<rparr> 5000 demo_booked_db)) = 201 \<and>
   balance_of (snd (refund no_fault foreign_operator
      \<lparr>r_bookingId = 1, r_amount = 999999, r_description = []\<rparr> 5000 demo_booked_db)) 3 1 = 999999"
proof -
  have a: "(0::int) < r_amount \<lparr>r_bookingId = 1, r_amount = 999999, r_description = []\<rparr>"
    and b: "r_bookingId \<lparr>r_bookingId = 1, r_amount = 999999, r_description = []\<rparr> \<noteq> 0"
    by simp_all
  have c: "find_booking (bookings demo_booked_db)
      (r_bookingId \<lparr>r_bookingId = 1, r_amount = 999999, r_description = []\<rparr>) = Some demo_booking"
    by (simp add: demo_booked_db_def demo_booking_def find_booking_def)
  have d: "b_user_id demo_booking \<noteq> u_id foreign_operator"
    "b_payment_status demo_booking = PayPending" "b_status demo_booking = StPending"
    "wallets demo_booked_db (u_id foreign_operator, b_warnet_id demo_booking) = None"
    "u_id foreign_operator = 3" "b_warnet_id demo_booking = 1"
    "balance_of demo_booked_db 3 1 = 0"
    by (simp_all add: demo_booking_def foreign_operator_def demo_booked_db_def demo_db_def
          balance_of_def)
  show ?thesis
    using a c d refund_credits_caller_unchecked [OF a b c, of foreign_operator 5000]
    by simp
qed

section \<open>Handlers that leave their contract\<close>

text \<open>
  Claim C6 asks that every change of a wallet balance happen inside a database
  transaction that also writes a transaction record. The handlers of
  \<open>BowarTransactionController\<close> open none. When the save of the top-up record throws
  after the wallet was saved, the answer is 500, the wallet holds the amount and the
  log is untouched, the record still pending, so that a second approve credits the
  amount again. When the payment record cannot be created, the wallet stays debited
  with no record of it.
\<close>

theorem wallet_change_without_log:
  "status (fst (approve (failing TransactionSave) demo_operator 1 5000 demo_topup_db)) = 500
   \<and> balance_of demo_topup_db 1 1 = 25000
   \<and> balance_of (snd (approve (failing TransactionSave) demo_operator 1 5000 demo_topup_db)) 1 1
       = 75000
   \<and> transactions (snd (approve (failing TransactionSave) demo_operator 1 5000 demo_topup_db))
       = transactions demo_topup_db
   \<and> balance_of (snd (approve no_fault demo_operator 1 6000
         (snd (approve (failing TransactionSave) demo_operator 1 5000 demo_topup_db)))) 1 1
       = 125000
   \<and> status (fst (payment (failing TransactionCreate) demo_user
         \<lparr>p_bookingId = 1, p_amount = 20000, p_description = []\<rparr> demo_booked_db)) = 500
   \<and> balance_of (snd (payment (failing TransactionCreate) demo_user
         \<lparr>p_bookingId = 1, p_amount = 20000, p_description = []\<rparr> demo_booked_db)) 1 1 = 5000
   \<and> transactions (snd (payment (failing TransactionCreate) demo_user
         \<lparr>p_bookingId = 1, p_amount = 20000, p_description = []\<rparr> demo_booked_db)) = []"
  by (simp add: approve_def approve_body_def approve_credit_def payment_def payment_body_def
      attempt_def failing_def no_fault_def balance_of_def reply_def Let_def
      demo_topup_db_def demo_booked_db_def demo_db_def demo_topup_def demo_booking_def
      demo_user_def demo_operator_def find_transaction_def find_user_def find_booking_def
      save_transaction_def)

text \<open>
  Claim C8 asks that no error response expose a stack trace outside development mode.
  The \<open>catch\<close> of \<open>BookingController.cancel\<close> never consults the mode: when the lookup of
  the booking throws, the 500 response carries the message of the exception in
  \<open>error\<close> and its stack in \<open>details\<close>. The \<open>catch\<close> of \<open>create\<close> returns the
  message of the exception in the same way.
\<close>

theorem cancel_exposes_stack:
  "status (fst (cancel (failing BookingFind) demo_user 1 5000 demo_booked_db)) = 500
   \<and> error_field (fst (cancel (failing BookingFind) demo_user 1 5000 demo_booked_db))
       = Some ''Connection terminated unexpectedly''
   \<and> details (fst (cancel (failing BookingFind) demo_user 1 5000 demo_booked_db))
       = Some (err_stack demo_error)
   \<and> err_stack demo_error \<noteq> []
   \<and> error_field (fst (create (failing WarnetFind) demo_user demo_request 1000 demo_db))
       = Some ''Connection terminated unexpectedly''"
  by (simp add: cancel_def cancel_body_def create_def create_body_def attempt_def failing_def
      demo_error_def demo_request_def demo_user_def isMemberBooking_def)

section \<open>Moves of a booking under the handlers\<close>

lemma find_booking_kept:
  "find_booking bs i = Some b \<Longrightarrow> find_booking (bs @ [x]) i = Some b"
  by (simp add: find_booking_def find_app)

lemma create_trx_written:
  "booking_written (bookings s) (bookings (snd (create_trx fault usr req w up now s)))"
proof -
  let ?i = "new_booking_id (bookings s)"
  let ?bk = "initial_booking usr req w up now ?i"
  let ?bk' = "?bk\<lparr>b_payment_status := PayPaid, b_status := StActive\<rparr>"
  have sv: "save_booking ?bk' (bookings s @ [?bk]) = bookings s @ [?bk']"
    by (rule save_booking_appended) (simp_all add: initial_booking_def)
  have c1: "booking_consistent ?bk" "booking_consistent ?bk'"
    by (simp_all add: booking_consistent_def initial_booking_def)
  have ids: "b_id ?bk = ?i" "b_id ?bk' = ?i" by (simp_all add: initial_booking_def)
  have "bookings (snd (create_trx fault usr req w up now s)) = bookings s
      \<or> bookings (snd (create_trx fault usr req w up now s)) = bookings s @ [?bk]
      \<or> bookings (snd (create_trx fault usr req w up now s)) = bookings s @ [?bk']"
    by (auto simp: create_trx_def create_finish_def attempt_def Let_def sv pc_updateOrCreate_def
        split: option.splits)
  then show ?thesis
    unfolding booking_written_def using c1 ids by blast
qed

lemma create_written:
  "booking_written (bookings s) (bookings (snd (create fault usr req now s)))"
proof -
  have same: "booking_written (bookings s) (bookings s)" by (simp add: booking_written_def)
  have "snd (create_body fault usr req now s) = s
      \<or> (\<exists>w up. create_body fault usr req now s = create_trx fault usr req w up now s)"
    by (auto simp: create_body_def attempt_def split: option.splits)
  moreover have "snd (create fault usr req now s) = snd (create_body fault usr req now s)"
    by (simp add: create_def split: prod.splits sum.splits)
  ultimately show ?thesis using same create_trx_written by auto
qed

lemma cancel_body_bookings:
  "bookings (snd (cancel_body fault usr bid now s)) = bookings s
   \<or> (\<exists>bk. find_booking (bookings s) bid = Some bk \<and> b_status bk \<noteq> StCancelled \<and>
          b_status bk \<noteq> StCompleted \<and>
          bookings (snd (cancel_body fault usr bid now s))
            = save_booking (bk\<lparr>b_status := StCancelled\<rparr>) (bookings s))"
proof (cases "find_booking (bookings s) bid")
  case None
  then show ?thesis by (simp add: cancel_body_def attempt_def split: option.splits)
next
  case (Some bk)
  let ?bk = "bk\<lparr>b_status := StCancelled\<rparr>"
  let ?s1 = "s\<lparr>bookings := save_booking ?bk (bookings s)\<rparr>"
  show ?thesis
  proof (cases "b_user_id bk \<noteq> u_id usr \<or> b_status bk = StCancelled \<or> b_status bk = StCompleted
      \<or> \<not> canCancel bk now \<or> fault BookingFind \<noteq> None \<or> fault TrxBegin \<noteq> None
      \<or> fault BookingSave \<noteq> None")
    case True
    then show ?thesis
      using Some by (auto simp: cancel_body_def attempt_def split: option.splits)
  next
    case False
    obtain r c where rf: "cancel_refund fault usr ?bk s ?s1 = (r, c)" by (cases "cancel_refund fault usr ?bk s ?s1")
    have cb: "bookings c = bookings s" using cancel_refund_committed [OF rf] .
    have body: "cancel_body fault usr bid now s =
        (case r of Inl e \<Rightarrow> (Inl e, c)
         | Inr s2 \<Rightarrow> (case cancel_release_pc fault ?bk c s2 of
                        Inl e \<Rightarrow> (Inl e, c)
                      | Inr s3 \<Rightarrow> attempt fault TrxCommit c
                          (Inr (reply 200 ''Booking cancelled successfully''), s3)))"
      using False Some rf
      by (auto simp: cancel_body_def attempt_def Let_def split: sum.splits)
    show ?thesis
    proof (cases r)
      case (Inl e)
      then show ?thesis using body cb by simp
    next
      case (Inr s2)
      then have b2: "bookings s2 = save_booking ?bk (bookings s)"
        using cancel_refund_bookings [of fault usr ?bk s ?s1 s2 c] rf by simp
      show ?thesis
      proof (cases "cancel_release_pc fault ?bk c s2")
        case (Inl e)
        then show ?thesis using body Inr cb by simp
      next
        case rel: (Inr s3)
        have b3: "bookings s3 = save_booking ?bk (bookings s)"
          using cancel_release_pc_bookings [OF rel] b2 by simp
        show ?thesis
        proof (cases "fault TrxCommit")
          case None
          then have "snd (cancel_body fault usr bid now s) = s3"
            using body Inr rel by (simp add: attempt_def)
          then show ?thesis using b3 False Some by auto
        next
          case (Some e)
          then have "snd (cancel_body fault usr bid now s) = c"
            using body Inr rel by (simp add: attempt_def)
          then show ?thesis using cb by simp
        qed
      qed
    qed
  qed
qed

lemma cancel_written:
  assumes "\<forall>b\<in>set bs. booking_consistent b" "bs = bookings s"
  shows "booking_written bs (bookings (snd (cancel fault usr bid now s)))"
proof -
  have snd_eq: "snd (cancel fault usr bid now s) = snd (cancel_body fault usr bid now s)"
    by (simp add: cancel_def split: prod.splits sum.splits)
  from cancel_body_bookings [of fault usr bid now s]
  show ?thesis
  proof
    assume "bookings (snd (cancel_body fault usr bid now s)) = bookings s"
    then show ?thesis by (simp add: snd_eq booking_written_def assms(2))
  next
    assume "\<exists>bk. find_booking (bookings s) bid = Some bk \<and> b_status bk \<noteq> StCancelled \<and>
          b_status bk \<noteq> StCompleted \<and>
          bookings (snd (cancel_body fault usr bid now s))
            = save_booking (bk\<lparr>b_status := StCancelled\<rparr>) (bookings s)"
    then obtain bk where fb: "find_booking (bookings s) bid = Some bk"
      and st: "b_status bk \<noteq> StCancelled" "b_status bk \<noteq> StCompleted"
      and res: "bookings (snd (cancel_body fault usr bid now s))
            = save_booking (bk\<lparr>b_status := StCancelled\<rparr>) (bookings s)" by blast
    let ?bk = "bk\<lparr>b_status := StCancelled\<rparr>"
    have "b_id ?bk = bid" using find_booking_id [OF fb] by simp
    moreover have "booking_consistent ?bk" by (simp add: booking_consistent_def)
    moreover have "payment_move (b_payment_status bk) (b_payment_status ?bk)"
      by (simp add: payment_move_def)
    moreover have "status_move (b_status bk) (b_status ?bk)"
      using st by (simp add: status_move_def)
    ultimately show ?thesis
      unfolding booking_written_def snd_eq assms(2) using fb res by blast
  qed
qed

lemma operator_approve_written:
  assumes "\<forall>b\<in>set bs. booking_consistent b" "bs = bookings s"
  shows "booking_written bs (bookings (snd (operator_approve fault operator bid now s)))"
proof -
  have snd_eq: "snd (operator_approve fault operator bid now s)
      = snd (operator_approve_body fault operator bid now s)"
    by (simp add: operator_approve_def split: prod.splits sum.splits)
  show ?thesis
  proof (cases "snd (operator_approve_body fault operator bid now s) = s")
    case True
    then show ?thesis by (simp add: snd_eq booking_written_def assms(2))
  next
    case False
    then obtain bk where fb: "find_booking (bookings s) bid = Some bk"
      and st: "b_payment_status bk \<noteq> PayPaid" "b_status bk \<noteq> StCancelled"
      by (auto simp: operator_approve_body_def attempt_def split: option.splits if_splits)
    have "bk \<in> set bs" using find_booking_id [OF fb] assms(2) by simp
    then have "booking_consistent bk" using assms(1) by blast
    with st have pend: "b_status bk = StPending" "b_payment_status bk = PayPending"
      by (auto simp: booking_consistent_def)
    let ?bk = "bk\<lparr>b_payment_status := PayPaid, b_status := StActive,
                   b_approved_by := Some (u_id operator), b_approved_at := Some now\<rparr>"
    have "bookings (snd (operator_approve_body fault operator bid now s))
        = save_booking ?bk (bookings s)"
      using False fb st
      by (auto simp: operator_approve_body_def attempt_def Let_def
          split: option.splits if_splits)
    moreover have "b_id ?bk = bid" using find_booking_id [OF fb] by simp
    moreover have "booking_consistent ?bk" by (simp add: booking_consistent_def)
    moreover have "payment_move (b_payment_status bk) (b_payment_status ?bk)"
      using pend by (simp add: payment_move_def)
    moreover have "status_move (b_status bk) (b_status ?bk)"
      using pend by (simp add: status_move_def)
    ultimately show ?thesis
      unfolding booking_written_def snd_eq assms(2) using fb by blast
  qed
qed

lemma operator_reject_written:
  assumes "\<forall>b\<in>set bs. booking_consistent b" "bs = bookings s"
  shows "booking_written bs (bookings (snd (operator_reject fault operator bid s)))"
proof -
  have snd_eq: "snd (operator_reject fault operator bid s)
      = snd (operator_reject_body fault operator bid s)"
    by (simp add: operator_reject_def split: prod.splits sum.splits)
  show ?thesis
  proof (cases "snd (operator_reject_body fault operator bid s) = s")
    case True
    then show ?thesis by (simp add: snd_eq booking_written_def assms(2))
  next
    case False
    then obtain bk where fb: "find_booking (bookings s) bid = Some bk"
      and st: "b_payment_status bk \<noteq> PayPaid" "b_status bk \<noteq> StCancelled"
      by (auto simp: operator_reject_body_def attempt_def split: option.splits if_splits)
    have "bk \<in> set bs" using find_booking_id [OF fb] assms(2) by simp
    then have "booking_consistent bk" using assms(1) by blast
    with st have pend: "b_status bk = StPending" "b_payment_status bk = PayPending"
      by (auto simp: booking_consistent_def)
    let ?bk = "bk\<lparr>b_payment_status := PayRejected, b_status := StCancelled\<rparr>"
    have "bookings (snd (operator_reject_body fault operator bid s))
        = save_booking ?bk (bookings s)"
      using False fb st
      by (auto simp: operator_reject_body_def attempt_def Let_def
          split: option.splits if_splits)
    moreover have "b_id ?bk = bid" using find_booking_id [OF fb] by simp
    moreover have "booking_consistent ?bk" by (simp add: booking_consistent_def)
    moreover have "payment_move (b_payment_status bk) (b_payment_status ?bk)"
      using pend by (simp add: payment_move_def)
    moreover have "status_move (b_status bk) (b_status ?bk)"
      using pend by (simp add: status_move_def)
    ultimately show ?thesis
      unfolding booking_written_def snd_eq assms(2) using fb by blast
  qed
qed

lemma step_written:
  assumes "step s s'" "\<forall>b\<in>set (bookings s). booking_consistent b"
  shows "booking_written (bookings s) (bookings s')"
  using assms
proof (cases rule: step.cases)
  case (step_create fault usr req now)
  then show ?thesis using create_written by simp
next
  case (step_cancel fault usr bookingId now)
  then show ?thesis using cancel_written [OF assms(2) refl] by simp
next
  case (step_approve fault operator bookingId now)
  then show ?thesis using operator_approve_written [OF assms(2) refl] by simp
next
  case (step_reject fault operator bookingId)
  then show ?thesis using operator_reject_written [OF assms(2) refl] by simp
qed

lemma written_consistent:
  assumes "booking_written bs bs'" "\<forall>b\<in>set bs. booking_consistent b"
  shows "\<forall>b\<in>set bs'. booking_consistent b"
  using assms by (auto simp: booking_written_def save_booking_def)

lemma written_moves:
  assumes wr: "booking_written bs bs'" and fb: "find_booking bs i = Some b"
  shows "\<exists>b'. find_booking bs' i = Some b' \<and>
           payment_move (b_payment_status b) (b_payment_status b') \<and>
           status_move (b_status b) (b_status b')"
proof -
  have stay: "payment_move (b_payment_status b) (b_payment_status b)"
    "status_move (b_status b) (b_status b)"
    by (simp_all add: payment_move_def status_move_def)
  from wr consider "bs' = bs" | x where "bs' = bs @ [x]"
    | j bk bk' where "find_booking bs j = Some bk" "b_id bk' = j"
        "payment_move (b_payment_status bk) (b_payment_status bk')"
        "status_move (b_status bk) (b_status bk')" "bs' = save_booking bk' bs"
    unfolding booking_written_def by blast
  then show ?thesis
  proof cases
    case 1
    then show ?thesis using fb stay by simp
  next
    case 2
    then show ?thesis using find_booking_kept [OF fb] stay by simp
  next
    case 3
    show ?thesis
    proof (cases "i = j")
      case True
      then have "find_booking bs' i = Some bk'" "b = bk"
        using 3 fb find_booking_saved [of bs j bk bk'] by simp_all
      then show ?thesis using 3 by simp
    next
      case False
      then have "find_booking bs' i = Some b"
        using 3 fb find_booking_save_other [of bk' i bs] by simp
      then show ?thesis using stay by simp
    qed
  qed
qed

lemma run_consistent:
  assumes "rtranclp step s0 s" "\<forall>b\<in>set (bookings s0). booking_consistent b"
  shows "\<forall>b\<in>set (bookings s). booking_consistent b"
  using assms
proof (induction rule: rtranclp_induct)
  case base
  then show ?case by simp
next
  case (step y z)
  then show ?case using written_consistent [OF step_written] by blast
qed

text \<open>
  Claim C5. Start from a database whose bookings are consistent (an empty table is) and
  run any sequence of create, cancel, operator approve and operator reject requests,
  with any call failing. Then each further request leaves every existing booking in
  place and moves its payment status only from pending to paid or to rejected, and its
  status only from pending to active or from a status that is neither cancelled nor
  completed to cancelled: paid and rejected are never left, nor are cancelled and
  completed.
\<close>

theorem booking_life_cycle:
  assumes "\<forall>b\<in>set (bookings s0). booking_consistent b"
    and "rtranclp step s0 s" and "step s s'"
    and "find_booking (bookings s) i = Some b"
  shows "\<exists>b'. find_booking (bookings s') i = Some b' \<and>
           payment_move (b_payment_status b) (b_payment_status b') \<and>
           status_move (b_status b) (b_status b') \<and>
           (b_payment_status b \<noteq> PayPending \<longrightarrow> b_payment_status b' = b_payment_status b) \<and>
           (b_status b = StCancelled \<or> b_status b = StCompleted \<longrightarrow> b_status b' = b_status b)"
proof -
  have inv: "\<forall>b\<in>set (bookings s). booking_consistent b"
    using run_consistent [OF assms(2) assms(1)] .
  from written_moves [OF step_written [OF assms(3) inv] assms(4)]
  obtain b' where "find_booking (bookings s') i = Some b'"
    "payment_move (b_payment_status b) (b_payment_status b')"
    "status_move (b_status b) (b_status b')" by blast
  then show ?thesis
    by (auto simp: payment_move_def status_move_def)
qed

theorem booking_life_cycle_witness:
  "booking_consistent demo_booking \<and> bookings demo_booked_db = [demo_booking] \<and>
   rtranclp step demo_booked_db demo_booked_db \<and>
   step demo_booked_db (snd (operator_approve no_fault demo_operator 1 5000 demo_booked_db)) \<and>
   find_booking (bookings demo_booked_db) 1 = Some demo_booking \<and>
   b_payment_status demo_booking = PayPending \<and> b_status demo_booking = StPending \<and>
   (\<exists>b'. find_booking
            (bookings (snd (operator_approve no_fault demo_operator 1 5000 demo_booked_db))) 1
            = Some b' \<and>
         payment_move PayPending (b_payment_status b') \<and> status_move StPending (b_status b'))"
proof -
  have a: "\<forall>b\<in>set (bookings demo_booked_db). booking_consistent b"
    by (simp add: demo_booked_db_def demo_booking_def booking_consistent_def)
  have b: "rtranclp step demo_booked_db demo_booked_db" by simp
  have c: "step demo_booked_db (snd (operator_approve no_fault demo_operator 1 5000 demo_booked_db))"
    by (rule step_approve)
  have d: "find_booking (bookings demo_booked_db) 1 = Some demo_booking"
    by (simp add: demo_booked_db_def demo_booking_def find_booking_def)
  have e: "b_payment_status demo_booking = PayPending" "b_status demo_booking = StPending"
    by (simp_all add: demo_booking_def)
  show ?thesis
    using a b c d e booking_life_cycle [OF a b c d] by (auto simp: demo_booked_db_def)
qed

section \<open>Booking a PC that is already occupied\<close>





end
